theory Spec2Isabelle
  imports Complex_Main "HOL-Library.Multiset"
begin

section \<open>TCI Trucking: the driver tracking server\<close>

text \<open>
  A shallow embedding of \<^verbatim>\<open>src/server.js\<close>. The file holds two revisions of the server,
  one after the other. The handlers \<^verbatim>\<open>GET /api/drivers\<close>, \<^verbatim>\<open>POST /api/driver/tracking\<close>,
  \<^verbatim>\<open>POST /api/driver/location\<close> and \<^verbatim>\<open>POST /api/init-drivers\<close> are taken from the
  first revision (lines 68 to 160); \<^verbatim>\<open>POST /api/drivers\<close> exists in the second revision
  only (lines 313 to 322) and is taken from there.

  The handlers are written against the Mongoose model \<^verbatim>\<open>Driver\<close>. What the handlers
  themselves compute (\<^verbatim>\<open>===\<close>, \<^verbatim>\<open>||\<close>, \<^verbatim>\<open>new Date(x)\<close>, \<^verbatim>\<open>!driver\<close>,
  \<^verbatim>\<open>try/catch\<close>) is modelled after JavaScript. The store calls are modelled after what
  Mongoose does for the schema declared at lines 28 to 50: it casts the filter and the
  update to the declared types and throws a cast error before anything is written, it
  stamps \<^verbatim>\<open>createdAt\<close> and \<^verbatim>\<open>updatedAt\<close>, and it fills in the declared defaults.
\<close>

subsection \<open>Values of a request body\<close>

text \<open>
  \<^verbatim>\<open>express.json()\<close> parses the request body; a handler reads its fields by
  destructuring. A field that is missing reads as \<^verbatim>\<open>undefined\<close>, which is \<open>None\<close> here.
  Numbers are rationals: the rounding of doubles, and literals that overflow to an
  infinity, are outside the model, and so are arrays and objects as field values.
\<close>

datatype json = JNull | JBool bool | JNum rat | JStr string

type_synonym jsval = "json option"

type_synonym reqbody = "string \<Rightarrow> jsval"

text \<open>
  What a request finds outside the handler: the clock read by \<^verbatim>\<open>new Date()\<close> (in
  milliseconds since the epoch), whether the store answers, and the conversions of the
  JavaScript engine that depend on a string grammar (\<^verbatim>\<open>Date.parse\<close>, \<^verbatim>\<open>Number(s)\<close>,
  \<^verbatim>\<open>String(n)\<close>); \<open>None\<close> stands for \<^verbatim>\<open>NaN\<close>.
\<close>

record env =
  now :: int
  up :: bool
  dateParse :: "string \<Rightarrow> int option"
  stringToNumber :: "string \<Rightarrow> rat option"
  numberToString :: "rat \<Rightarrow> string"

subsection \<open>The schema\<close>

record location =
  lat :: "rat option"
  lng :: "rat option"
  timestamp :: "int option"
  speed :: "rat option"
  accuracy :: "rat option"
  address :: "string option"

record driver =
  oid :: nat
  name :: string
  phone :: string
  isTracking :: bool
  lastLocation :: location
  trackingHistory :: "location list"
  consentGiven :: bool
  consentTimestamp :: "int option"
  createdAt :: int
  updatedAt :: int

text \<open>
  The collection in its natural (insertion) order, and the counter from which the
  identifiers of new documents are drawn.
\<close>

record db =
  drivers :: "driver list"
  nextId :: nat

datatype error = CastError | ValidationError | StoreUnavailable

datatype body =
    Drivers "driver list"
  | Fallback "(string \<times> string \<times> string \<times> bool) list"
  | TrackingOk driver
  | Success
  | SeedOk nat
  | Created driver

datatype response = Json body | Status404 | Status500 error

subsection \<open>JavaScript in the handlers\<close>

text \<open>\<^verbatim>\<open>action === 'start_tracking'\<close>: strict equality with a string literal.\<close>

definition isStart :: "jsval \<Rightarrow> bool" where
  "isStart action = (action = Some (JStr ''start_tracking''))"

text \<open>Truthiness, for \<^verbatim>\<open>speed || 0\<close>.\<close>

fun truthy :: "jsval \<Rightarrow> bool" where
  "truthy None = False"
| "truthy (Some JNull) = False"
| "truthy (Some (JBool b)) = b"
| "truthy (Some (JNum r)) = (r \<noteq> 0)"
| "truthy (Some (JStr s)) = (s \<noteq> [])"

definition orZero :: "jsval \<Rightarrow> jsval" where
  "orZero v = (if truthy v then v else Some (JNum 0))"

text \<open>
  \<^verbatim>\<open>new Date(x)\<close> with one argument; \<open>None\<close> is an invalid date. \<^verbatim>\<open>undefined\<close> gives an
  invalid date (only the call with no argument reads the clock), \<^verbatim>\<open>null\<close>,
  \<^verbatim>\<open>false\<close> and \<^verbatim>\<open>true\<close> convert to the numbers 0, 0 and 1, a number is truncated and
  must lie within 8.64e15 milliseconds of the epoch, a string is parsed.
\<close>

definition timeClip :: "rat \<Rightarrow> int option" where
  "timeClip r =
     (let t = (if r < 0 then \<lceil>r\<rceil> else \<lfloor>r\<rfloor>)
      in if \<bar>t\<bar> \<le> 8640000000000000 then Some t else None)"

fun newDate :: "env \<Rightarrow> jsval \<Rightarrow> int option" where
  "newDate e None = None"
| "newDate e (Some JNull) = Some 0"
| "newDate e (Some (JBool b)) = Some (if b then 1 else 0)"
| "newDate e (Some (JNum r)) = timeClip r"
| "newDate e (Some (JStr s)) = dateParse e s"

subsection \<open>Casting to the schema types\<close>

text \<open>
  An identifier is written as 24 hexadecimal digits and is the number they denote. The
  cast of the filter \<^verbatim>\<open>{ _id: driverId }\<close> lets \<^verbatim>\<open>undefined\<close> and \<^verbatim>\<open>null\<close> through
  (such a filter matches no document) and throws for anything that is not an identifier.
\<close>

definition hexDigit :: "char \<Rightarrow> nat option" where
  "hexDigit c =
     (let n = of_char c :: nat
      in if 48 \<le> n \<and> n \<le> 57 then Some (n - 48)
         else if 97 \<le> n \<and> n \<le> 102 then Some (n - 87)
         else if 65 \<le> n \<and> n \<le> 70 then Some (n - 55)
         else None)"

fun parseHex :: "nat \<Rightarrow> string \<Rightarrow> nat option" where
  "parseHex acc [] = Some acc"
| "parseHex acc (c # cs) =
     (case hexDigit c of None \<Rightarrow> None | Some v \<Rightarrow> parseHex (16 * acc + v) cs)"

fun castObjectId :: "jsval \<Rightarrow> error + nat option" where
  "castObjectId None = Inr None"
| "castObjectId (Some JNull) = Inr None"
| "castObjectId (Some (JStr s)) =
     (if length s = 24
      then (case parseHex 0 s of None \<Rightarrow> Inl CastError | Some i \<Rightarrow> Inr (Some i))
      else Inl CastError)"
| "castObjectId (Some v) = Inl CastError"

text \<open>
  The cast to \<^verbatim>\<open>Number\<close>: \<^verbatim>\<open>undefined\<close>, \<^verbatim>\<open>null\<close> and the empty string are stored as
  no value, a boolean or a string is converted with \<^verbatim>\<open>Number(v)\<close>, and \<^verbatim>\<open>NaN\<close> throws.
\<close>

fun castNumber :: "env \<Rightarrow> jsval \<Rightarrow> error + rat option" where
  "castNumber e None = Inr None"
| "castNumber e (Some JNull) = Inr None"
| "castNumber e (Some (JBool b)) = Inr (Some (if b then 1 else 0))"
| "castNumber e (Some (JNum r)) = Inr (Some r)"
| "castNumber e (Some (JStr s)) =
     (if s = [] then Inr None
      else (case stringToNumber e s of None \<Rightarrow> Inl CastError | Some r \<Rightarrow> Inr (Some r)))"

text \<open>The cast of a \<^verbatim>\<open>Date\<close> object to \<^verbatim>\<open>Date\<close>: an invalid date throws.\<close>

definition castDate :: "int option \<Rightarrow> error + int option" where
  "castDate d = (case d of None \<Rightarrow> Inl CastError | Some t \<Rightarrow> Inr (Some t))"

text \<open>The cast to \<^verbatim>\<open>String\<close>, for the fields of a new document.\<close>

fun castString :: "env \<Rightarrow> jsval \<Rightarrow> string option" where
  "castString e None = None"
| "castString e (Some JNull) = None"
| "castString e (Some (JBool b)) = Some (if b then ''true'' else ''false'')"
| "castString e (Some (JNum r)) = Some (numberToString e r)"
| "castString e (Some (JStr s)) = Some s"

text \<open>A cast that throws ends the casts that follow it.\<close>

definition andThen :: "error + 'a \<Rightarrow> ('a \<Rightarrow> error + 'b) \<Rightarrow> error + 'b" where
  "andThen r f = (case r of Inl err \<Rightarrow> Inl err | Inr x \<Rightarrow> f x)"

text \<open>
  The object literal that the location handler writes twice (lines 113 to 119 and 121 to
  127), cast field by field.
\<close>

definition castLocation :: "env \<Rightarrow> reqbody \<Rightarrow> error + location" where
  "castLocation e b =
     (let latitude = b ''latitude''; longitude = b ''longitude'';
          accuracy = b ''accuracy''; timestamp = b ''timestamp''; speed = b ''speed''
      in andThen (castNumber e latitude) (\<lambda>la.
         andThen (castNumber e longitude) (\<lambda>lo.
         andThen (castNumber e accuracy) (\<lambda>ac.
         andThen (castDate (newDate e timestamp)) (\<lambda>ts.
         andThen (castNumber e (orZero speed)) (\<lambda>sp.
         Inr \<lparr>lat = la, lng = lo, timestamp = ts, speed = sp, accuracy = ac,
              address = None\<rparr>))))))"

subsection \<open>The store\<close>

fun updateFirst :: "('a \<Rightarrow> bool) \<Rightarrow> ('a \<Rightarrow> 'a) \<Rightarrow> 'a list \<Rightarrow> 'a list" where
  "updateFirst p f [] = []"
| "updateFirst p f (x # xs) = (if p x then f x # xs else x # updateFirst p f xs)"

text \<open>
  \<^verbatim>\<open>Driver.findOneAndUpdate({ _id: driverId }, update, { new: true })\<close>. The filter and
  the update are cast first; then the first document with the identifier is rewritten
  and returned as rewritten, \<^verbatim>\<open>updatedAt\<close> stamped; \<^verbatim>\<open>null\<close> is returned, and nothing
  written, when no document has the identifier.
\<close>

definition findOneAndUpdate ::
  "env \<Rightarrow> db \<Rightarrow> jsval \<Rightarrow> error + (driver \<Rightarrow> driver) \<Rightarrow> error + driver option \<times> db" where
  "findOneAndUpdate e s driverId update =
     andThen (castObjectId driverId) (\<lambda>q.
     andThen update (\<lambda>f.
       if \<not> up e then Inl StoreUnavailable
       else (case q of
               None \<Rightarrow> Inr (None, s)
             | Some i \<Rightarrow>
                 (case find (\<lambda>d. oid d = i) (drivers s) of
                    None \<Rightarrow> Inr (None, s)
                  | Some d \<Rightarrow>
                      Inr (Some ((f d)\<lparr>updatedAt := now e\<rparr>),
                           s\<lparr>drivers := updateFirst (\<lambda>d. oid d = i)
                                          (\<lambda>d. (f d)\<lparr>updatedAt := now e\<rparr>)
                                          (drivers s)\<rparr>)))))"

text \<open>A new document: the declared defaults and the two time stamps.\<close>

definition newDriver :: "env \<Rightarrow> nat \<Rightarrow> string \<times> string \<Rightarrow> driver" where
  "newDriver e i np =
     \<lparr>oid = i, name = fst np, phone = snd np, isTracking = False,
      lastLocation = \<lparr>lat = None, lng = None, timestamp = None, speed = Some 0,
                      accuracy = None, address = None\<rparr>,
      trackingHistory = [], consentGiven = False, consentTimestamp = None,
      createdAt = now e, updatedAt = now e\<rparr>"

definition deleteMany :: "env \<Rightarrow> db \<Rightarrow> error + db" where
  "deleteMany e s = (if up e then Inr (s\<lparr>drivers := []\<rparr>) else Inl StoreUnavailable)"

definition insertMany :: "env \<Rightarrow> db \<Rightarrow> (string \<times> string) list \<Rightarrow> error + driver list \<times> db" where
  "insertMany e s nps =
     (if up e
      then (let ds = map (\<lambda>(k, np). newDriver e (nextId s + k) np) (enumerate 0 nps)
            in Inr (ds, \<lparr>drivers = drivers s @ ds, nextId = nextId s + length nps\<rparr>))
      else Inl StoreUnavailable)"

text \<open>
  \<^verbatim>\<open>driver.save()\<close> of a new document: both strings are required, and a required
  string is one that is present and not empty; validation comes before the write.
\<close>

definition save :: "env \<Rightarrow> db \<Rightarrow> string option \<Rightarrow> string option \<Rightarrow> error + driver \<times> db" where
  "save e s nm ph =
     (case (nm, ph) of
        (Some n, Some p) \<Rightarrow>
          if n = [] \<or> p = [] then Inl ValidationError
          else if \<not> up e then Inl StoreUnavailable
          else (let d = newDriver e (nextId s) (n, p)
                in Inr (d, \<lparr>drivers = drivers s @ [d], nextId = nextId s + 1\<rparr>))
      | _ \<Rightarrow> Inl ValidationError)"

text \<open>\<^verbatim>\<open>Driver.find().sort({ createdAt: -1 })\<close>: newest first, ties in natural order.\<close>

fun insertNewest :: "driver \<Rightarrow> driver list \<Rightarrow> driver list" where
  "insertNewest d [] = [d]"
| "insertNewest d (x # xs) =
     (if createdAt d < createdAt x then x # insertNewest d xs else d # x # xs)"

definition sortNewestFirst :: "driver list \<Rightarrow> driver list" where
  "sortNewestFirst ds = foldr insertNewest ds []"

definition findSorted :: "env \<Rightarrow> db \<Rightarrow> error + driver list" where
  "findSorted e s = (if up e then Inr (sortNewestFirst (drivers s)) else Inl StoreUnavailable)"

subsection \<open>The handlers\<close>

text \<open>\<^verbatim>\<open>GET /api/drivers\<close> (lines 68 to 80).\<close>

definition mockDrivers :: "(string \<times> string \<times> string \<times> bool) list" where
  "mockDrivers =
     [(''1'', ''John Smith'', ''+1-555-0101'', False),
      (''2'', ''Maria Garcia'', ''+1-555-0102'', False)]"

definition listDrivers :: "env \<Rightarrow> db \<Rightarrow> response" where
  "listDrivers e s =
     (case findSorted e s of
        Inr ds \<Rightarrow> Json (Drivers ds)
      | Inl err \<Rightarrow> Json (Fallback mockDrivers))"

text \<open>\<^verbatim>\<open>POST /api/driver/tracking\<close> (lines 82 to 104).\<close>

definition trackingUpdate :: "env \<Rightarrow> jsval \<Rightarrow> driver \<Rightarrow> driver" where
  "trackingUpdate e action d =
     d\<lparr>isTracking := isStart action,
       consentGiven := isStart action,
       consentTimestamp := (if isStart action then Some (now e) else None)\<rparr>"

definition applyTrackingCommand :: "env \<Rightarrow> db \<Rightarrow> reqbody \<Rightarrow> response \<times> db" where
  "applyTrackingCommand e s b =
     (let driverId = b ''driverId''; action = b ''action''
      in case findOneAndUpdate e s driverId (Inr (trackingUpdate e action)) of
           Inl err \<Rightarrow> (Status500 err, s)
         | Inr (None, s') \<Rightarrow> (Status404, s')
         | Inr (Some d, s') \<Rightarrow> (Json (TrackingOk d), s'))"

text \<open>\<^verbatim>\<open>POST /api/driver/location\<close> (lines 106 to 141).\<close>

definition locationUpdate :: "env \<Rightarrow> reqbody \<Rightarrow> error + (driver \<Rightarrow> driver)" where
  "locationUpdate e b =
     (case castLocation e b of
        Inl err \<Rightarrow> Inl err
      | Inr l \<Rightarrow> Inr (\<lambda>d. d\<lparr>lastLocation := l, trackingHistory := trackingHistory d @ [l]\<rparr>))"

definition applyLocationUpdate :: "env \<Rightarrow> db \<Rightarrow> reqbody \<Rightarrow> response \<times> db" where
  "applyLocationUpdate e s b =
     (let driverId = b ''driverId''
      in case findOneAndUpdate e s driverId (locationUpdate e b) of
           Inl err \<Rightarrow> (Status500 err, s)
         | Inr (None, s') \<Rightarrow> (Status404, s')
         | Inr (Some d, s') \<Rightarrow> (Json Success, s'))"

text \<open>\<^verbatim>\<open>POST /api/init-drivers\<close> (lines 144 to 160).\<close>

definition sampleDrivers :: "(string \<times> string) list" where
  "sampleDrivers =
     [(''John Smith'', ''+1-555-0101''),
      (''Maria Garcia'', ''+1-555-0102''),
      (''David Johnson'', ''+1-555-0103''),
      (''Sarah Williams'', ''+1-555-0104'')]"

definition seedSampleDrivers :: "env \<Rightarrow> db \<Rightarrow> response \<times> db" where
  "seedSampleDrivers e s =
     (case deleteMany e s of
        Inl err \<Rightarrow> (Status500 err, s)
      | Inr s1 \<Rightarrow>
          (case insertMany e s1 sampleDrivers of
             Inl err \<Rightarrow> (Status500 err, s1)
           | Inr (ds, s2) \<Rightarrow> (Json (SeedOk (length ds)), s2)))"

text \<open>
  \<^verbatim>\<open>POST /api/drivers\<close> (lines 313 to 322): \<^verbatim>\<open>new Driver({ name, phone })\<close> and
  \<^verbatim>\<open>save()\<close>, which validates the two required strings before it writes.
\<close>

definition createDriver :: "env \<Rightarrow> db \<Rightarrow> reqbody \<Rightarrow> response \<times> db" where
  "createDriver e s b =
     (let name = b ''name''; phone = b ''phone''
      in case save e s (castString e name) (castString e phone) of
           Inl err \<Rightarrow> (Status500 err, s)
         | Inr (d, s') \<Rightarrow> (Json (Created d), s'))"

subsection \<open>Runs of requests\<close>

text \<open>
  A run of location requests handled one after the other, each in the environment in
  which it arrives; the answers are collected in arrival order.
\<close>

fun submitAll :: "db \<Rightarrow> (env \<times> reqbody) list \<Rightarrow> response list \<times> db" where
  "submitAll s [] = ([], s)"
| "submitAll s ((e, b) # rs) =
     (case applyLocationUpdate e s b of
        (r, s1) \<Rightarrow> (case submitAll s1 rs of (rs', s2) \<Rightarrow> (r # rs', s2)))"

text \<open>
  The states in which the store calls of the location handler leave the store, in the
  order of the calls. The handler makes one store call, \<^verbatim>\<open>findOneAndUpdate\<close>, whose
  update document holds both the new \<^verbatim>\<open>lastLocation\<close> and the \<^verbatim>\<open>$push\<close> to
  \<^verbatim>\<open>trackingHistory\<close>; a request that fails in a cast does not reach the store.
\<close>

definition locationWrites :: "env \<Rightarrow> db \<Rightarrow> reqbody \<Rightarrow> db list" where
  "locationWrites e s b =
     (case findOneAndUpdate e s (b ''driverId'') (locationUpdate e b) of
        Inl err \<Rightarrow> []
      | Inr (x, s') \<Rightarrow> [s'])"



text \<open>
  The stores that the four operations on drivers reach from the empty store, whatever
  the request bodies and the environments are and whether a call succeeds or fails.
\<close>

definition emptyDb :: db where
  "emptyDb = \<lparr>drivers = [], nextId = 0\<rparr>"

inductive reachable :: "db \<Rightarrow> bool" where
  initial: "reachable emptyDb"
| created: "reachable s \<Longrightarrow> reachable (snd (createDriver e s b))"
| seeded: "reachable s \<Longrightarrow> reachable (snd (seedSampleDrivers e s))"
| tracked: "reachable s \<Longrightarrow> reachable (snd (applyTrackingCommand e s b))"
| located: "reachable s \<Longrightarrow> reachable (snd (applyLocationUpdate e s b))"

text \<open>The invariant of the data model, for one driver.\<close>

definition consentInv :: "driver \<Rightarrow> bool" where
  "consentInv d = (isTracking d \<longrightarrow> consentGiven d \<and> consentTimestamp d \<noteq> None)"

subsection \<open>Concrete instances\<close>

text \<open>
  The environment and the store at which the theorems below are instantiated. The clock
  reads 2024-05-01T10:00:00Z and the store answers; of the string conversions, the
  instances use this one date and this one numeral only.
\<close>

definition testEnv :: env where
  "testEnv =
     \<lparr>now = 1714557600000, up = True,
      dateParse = (\<lambda>s. if s = ''2024-05-01T10:00:00.000Z'' then Some 1714557600000 else None),
      stringToNumber = (\<lambda>s. if s = ''12.5'' then Some 12.5 else None),
      numberToString = (\<lambda>r. ''0'')\<rparr>"

definition driverA :: driver where
  "driverA =
     \<lparr>oid = 1, name = ''Maria Garcia'', phone = ''+1-555-0102'', isTracking = True,
      lastLocation = \<lparr>lat = None, lng = None, timestamp = None, speed = Some 0,
                      accuracy = None, address = None\<rparr>,
      trackingHistory = [], consentGiven = True, consentTimestamp = Some 1714550000000,
      createdAt = 1714500000000, updatedAt = 1714550000000\<rparr>"

definition dbA :: db where
  "dbA = \<lparr>drivers = [driverA], nextId = 2\<rparr>"

definition idA :: json where
  "idA = JStr ''000000000000000000000001''"

definition garbageActionA :: reqbody where
  "garbageActionA = map_of [(''driverId'', idA), (''action'', JStr ''garbage'')]"

definition stopActionA :: reqbody where
  "stopActionA = map_of [(''driverId'', idA), (''action'', JStr ''stop_tracking'')]"

definition goodLocationA :: reqbody where
  "goodLocationA =
     map_of [(''driverId'', idA), (''latitude'', JNum 44.43), (''longitude'', JNum 26.1),
             (''accuracy'', JNum 5), (''timestamp'', JStr ''2024-05-01T10:00:00.000Z'')]"

definition idleDriverA :: driver where
  "idleDriverA = driverA\<lparr>isTracking := False, consentGiven := False, consentTimestamp := None\<rparr>"

definition dbIdle :: db where
  "dbIdle = \<lparr>drivers = [idleDriverA], nextId = 2\<rparr>"

definition locationA :: location where
  "locationA =
     \<lparr>lat = Some 44.43, lng = Some 26.1, timestamp = Some 1714557600000, speed = Some 0,
      accuracy = Some 5, address = None\<rparr>"

definition downEnv :: env where
  "downEnv = testEnv\<lparr>up := False\<rparr>"

definition driverB :: driver where
  "driverB =
     \<lparr>oid = 2, name = ''David Johnson'', phone = ''+1-555-0103'', isTracking = False,
      lastLocation = \<lparr>lat = None, lng = None, timestamp = None, speed = Some 0,
                      accuracy = None, address = None\<rparr>,
      trackingHistory = [], consentGiven = False, consentTimestamp = None,
      createdAt = 1714510000000, updatedAt = 1714510000000\<rparr>"

definition dbAB :: db where
  "dbAB = \<lparr>drivers = [driverA, driverB], nextId = 3\<rparr>"

definition noLatitudeA :: reqbody where
  "noLatitudeA =
     map_of [(''driverId'', idA), (''longitude'', JNum 26.1),
             (''timestamp'', JNum 1714557600000)]"

definition locationNoLat :: location where
  "locationNoLat =
     \<lparr>lat = None, lng = Some 26.1, timestamp = Some 1714557600000, speed = Some 0,
      accuracy = None, address = None\<rparr>"


definition noTimestampA :: reqbody where
  "noTimestampA =
     map_of [(''driverId'', idA), (''latitude'', JNum 44.43), (''longitude'', JNum 26.1)]"

definition badTimestampA :: reqbody where
  "badTimestampA =
     map_of [(''driverId'', idA), (''latitude'', JNum 44.43), (''longitude'', JNum 26.1),
             (''timestamp'', JStr ''yesterday'')]"

definition placeholderIdA :: reqbody where
  "placeholderIdA = map_of [(''driverId'', JStr ''1''), (''action'', JStr ''start_tracking'')]"

definition unknownNoTimeA :: reqbody where
  "unknownNoTimeA =
     map_of [(''driverId'', JStr ''0000000000000000000000ff''),
             (''action'', JStr ''stop_tracking''),
             (''latitude'', JNum 44.43), (''longitude'', JNum 26.1)]"

definition unknownIdA :: reqbody where
  "unknownIdA =
     map_of [(''driverId'', JStr ''0000000000000000000000ff''),
             (''action'', JStr ''start_tracking''),
             (''latitude'', JNum 44.43), (''longitude'', JNum 26.1), (''accuracy'', JNum 5),
             (''timestamp'', JStr ''2024-05-01T10:00:00.000Z'')]"

definition laterEnv :: env where
  "laterEnv = testEnv\<lparr>now := 1714557660000\<rparr>"

definition speedLocationA :: reqbody where
  "speedLocationA =
     map_of [(''driverId'', idA), (''latitude'', JNum 44.44), (''longitude'', JNum 26.11),
             (''speed'', JNum 12.5), (''timestamp'', JNum 1714557650000)]"

definition locationSpeed :: location where
  "locationSpeed =
     \<lparr>lat = Some 44.44, lng = Some 26.11, timestamp = Some 1714557650000,
      speed = Some 12.5, accuracy = None, address = None\<rparr>"

definition threeUpdatesA :: "(env \<times> reqbody) list" where
  "threeUpdatesA =
     [(testEnv, goodLocationA), (laterEnv, noLatitudeA), (laterEnv, speedLocationA)]"

definition createA :: reqbody where
  "createA = map_of [(''name'', JStr ''Ana Pop''), (''phone'', JStr ''+40-555-0199'')]"

definition startFirst :: reqbody where
  "startFirst =
     map_of [(''driverId'', JStr ''000000000000000000000000''),
             (''action'', JStr ''start_tracking'')]"

definition trackedDriver :: driver where
  "trackedDriver =
     (newDriver testEnv 0 (''Ana Pop'', ''+40-555-0199''))
       \<lparr>isTracking := True, consentGiven := True,
        consentTimestamp := Some 1714557660000, updatedAt := 1714557660000\<rparr>"

definition trackedDb :: db where
  "trackedDb = \<lparr>drivers = [trackedDriver], nextId = 1\<rparr>"

section \<open>Properties\<close>

subsection \<open>The store primitives\<close>

lemma andThen_simps [simp]:
  "andThen (Inl err) f = Inl err"
  "andThen (Inr x) f = f x"
  by (simp_all add: andThen_def)

lemma find_updateFirst:
  "find p xs = Some x \<Longrightarrow> p (f x) \<Longrightarrow> find p (updateFirst p f xs) = Some (f x)"
  by (induction xs) (auto split: if_splits)

lemma updateFirst_no_match: "find p xs = None \<Longrightarrow> updateFirst p f xs = xs"
  by (induction xs) (auto split: if_splits)

lemma length_updateFirst [simp]: "length (updateFirst p f xs) = length xs"
  by (induction xs) auto

lemma updateFirst_pres:
  "\<forall>x\<in>set xs. P x \<Longrightarrow> (\<And>x. x \<in> set xs \<Longrightarrow> P x \<Longrightarrow> P (f x)) \<Longrightarrow> \<forall>x\<in>set (updateFirst p f xs). P x"
  by (induction xs) auto

lemma find_oid_Some: "find (\<lambda>d. oid d = i) ds = Some d \<Longrightarrow> oid d = i \<and> d \<in> set ds"
  by (induction ds) (auto split: if_splits)

lemma find_oid_None: "find (\<lambda>d. oid d = i) ds = None \<longleftrightarrow> i \<notin> oid ` set ds"
  by (induction ds) auto

lemma findOneAndUpdate_hit:
  assumes "up e" "castObjectId v = Inr (Some i)" "find (\<lambda>d. oid d = i) (drivers s) = Some d"
  shows "findOneAndUpdate e s v (Inr f) =
           Inr (Some ((f d)\<lparr>updatedAt := now e\<rparr>),
                s\<lparr>drivers := updateFirst (\<lambda>d. oid d = i) (\<lambda>d. (f d)\<lparr>updatedAt := now e\<rparr>) (drivers s)\<rparr>)"
  using assms by (simp add: findOneAndUpdate_def)

lemma findOneAndUpdate_miss:
  assumes "findOneAndUpdate e s v u = Inr (None, s')"
  shows "s' = s"
  using assms by (auto simp: findOneAndUpdate_def andThen_def split: sum.splits if_splits option.splits)

lemma findOneAndUpdate_error_or_same:
  assumes "\<forall>i. castObjectId v = Inr (Some i) \<longrightarrow> i \<notin> oid ` set (drivers s)"
  shows "findOneAndUpdate e s v u = Inr (None, s) \<or> (\<exists>err. findOneAndUpdate e s v u = Inl err)"
  using assms by (auto simp: findOneAndUpdate_def andThen_def find_oid_None[symmetric] split: sum.splits if_splits option.splits)

lemma tracking_hit:
  assumes "up e"
    and "castObjectId (b ''driverId'') = Inr (Some i)"
    and "find (\<lambda>d. oid d = i) (drivers s) = Some d0"
  shows "applyTrackingCommand e s b =
           (Json (TrackingOk ((trackingUpdate e (b ''action'') d0)\<lparr>updatedAt := now e\<rparr>)),
            s\<lparr>drivers := updateFirst (\<lambda>d. oid d = i)
                           (\<lambda>d. (trackingUpdate e (b ''action'') d)\<lparr>updatedAt := now e\<rparr>)
                           (drivers s)\<rparr>)"
  unfolding applyTrackingCommand_def Let_def findOneAndUpdate_hit [OF assms(1-3)]
  by simp

lemma trackingUpdate_oid: "oid ((trackingUpdate e a d)\<lparr>updatedAt := t\<rparr>) = oid d"
  by (simp add: trackingUpdate_def)

lemma trackingUpdate_stop:
  "a \<noteq> Some (JStr ''start_tracking'') \<Longrightarrow>
   (trackingUpdate e a d)\<lparr>updatedAt := t\<rparr> =
     d\<lparr>isTracking := False, consentGiven := False, consentTimestamp := None, updatedAt := t\<rparr>"
  by (simp add: trackingUpdate_def isStart_def)

subsection \<open>Tracking commands\<close>

text \<open>
  Claim C1. For a driver that exists in a store that answers, a tracking command whose
  action is anything but the string \<^verbatim>\<open>start_tracking\<close> (another string, the empty string,
  a number, \<^verbatim>\<open>null\<close>, no action at all) is answered with the updated driver, and that
  driver, which is the one now stored under the identifier, has \<open>isTracking = False\<close>.
\<close>

theorem stop_is_idle:
  assumes "up e"
    and "castObjectId (b ''driverId'') = Inr (Some i)"
    and "find (\<lambda>d. oid d = i) (drivers s) = Some d0"
    and "b ''action'' \<noteq> Some (JStr ''start_tracking'')"
  shows "\<exists>d. fst (applyTrackingCommand e s b) = Json (TrackingOk d)
           \<and> find (\<lambda>d. oid d = i) (drivers (snd (applyTrackingCommand e s b))) = Some d
           \<and> isTracking d = False"
proof -
  let ?d = "(trackingUpdate e (b ''action'') d0)\<lparr>updatedAt := now e\<rparr>"
  have hit: "applyTrackingCommand e s b =
           (Json (TrackingOk ?d),
            s\<lparr>drivers := updateFirst (\<lambda>d. oid d = i)
                           (\<lambda>d. (trackingUpdate e (b ''action'') d)\<lparr>updatedAt := now e\<rparr>)
                           (drivers s)\<rparr>)"
    using assms(1-3) by (rule tracking_hit [of e b i s d0])
  have i: "oid ?d = i"
    using find_oid_Some [OF assms(3)] by (simp only: trackingUpdate_oid)
  have 1: "fst (applyTrackingCommand e s b) = Json (TrackingOk ?d)"
    by (simp only: hit fst_conv)
  have 2: "find (\<lambda>d. oid d = i) (drivers (snd (applyTrackingCommand e s b))) = Some ?d"
    unfolding hit snd_conv
    using find_updateFirst [OF assms(3), of "\<lambda>d. (trackingUpdate e (b ''action'') d)\<lparr>updatedAt := now e\<rparr>", OF i]
    by simp
  have 3: "isTracking ?d = False"
    by (simp add: trackingUpdate_stop [OF assms(4)])
  show ?thesis
    by (rule exI [of _ ?d]) (simp only: 1 2 3 simp_thms)
qed

theorem stop_is_idle_witness:
  "up testEnv \<and> 
   (\<exists>d. fst (applyTrackingCommand testEnv dbA garbageActionA) = Json (TrackingOk d)
     \<and> find (\<lambda>d. oid d = 1) (drivers (snd (applyTrackingCommand testEnv dbA garbageActionA))) = Some d
     \<and> isTracking d = False)"
proof -
  have 1: "up testEnv" by (simp add: testEnv_def)
  have 2: "castObjectId (garbageActionA ''driverId'') = Inr (Some 1)"
    by (simp add: garbageActionA_def idA_def hexDigit_def)
  have 3: "find (\<lambda>d. oid d = 1) (drivers dbA) = Some driverA" by (simp add: dbA_def driverA_def)
  have 4: "garbageActionA ''action'' \<noteq> Some (JStr ''start_tracking'')"
    by (simp add: garbageActionA_def)
  show ?thesis by (rule conjI [OF 1 stop_is_idle [of testEnv garbageActionA 1 dbA driverA, OF 1 2 3 4]])
qed

lemma testEnv_up: "up testEnv"
  by (simp add: testEnv_def)

lemma castObjectId_idA: "castObjectId (Some idA) = Inr (Some 1)"
  by (simp add: idA_def hexDigit_def)

lemma castLocation_goodLocationA: "castLocation testEnv goodLocationA = Inr locationA"
  by (simp add: castLocation_def goodLocationA_def testEnv_def castDate_def orZero_def
      locationA_def)

lemma find_oid_eq: "find (\<lambda>d. oid d = i) ds = Some d \<Longrightarrow> oid d = i"
  by (rule conjunct1 [OF find_oid_Some])

lemma location_hit:
  assumes "up e"
    and "castObjectId (b ''driverId'') = Inr (Some i)"
    and "find (\<lambda>d. oid d = i) (drivers s) = Some d0"
    and "castLocation e b = Inr l"
  shows "applyLocationUpdate e s b =
           (Json Success,
            s\<lparr>drivers := updateFirst (\<lambda>d. oid d = i)
                           (\<lambda>d. d\<lparr>lastLocation := l, trackingHistory := trackingHistory d @ [l],
                                  updatedAt := now e\<rparr>)
                           (drivers s)\<rparr>)"
  unfolding applyLocationUpdate_def Let_def locationUpdate_def assms(4) sum.case
    findOneAndUpdate_hit [OF assms(1-3)]
  by simp

text \<open>
  Claim C7. A stop transition (a tracking command with any action other than
  \<^verbatim>\<open>start_tracking\<close>, applied to a driver that exists) stores and returns the driver with
  \<open>consentGiven\<close> and \<open>consentTimestamp\<close> cleared, \<open>isTracking\<close> off and the
  bookkeeping field \<open>updatedAt\<close> stamped; \<open>trackingHistory\<close>, \<open>lastLocation\<close>,
  \<open>name\<close> and \<open>phone\<close> are as they were.
\<close>

theorem stop_clears_consent_only:
  assumes "up e"
    and "castObjectId (b ''driverId'') = Inr (Some i)"
    and "find (\<lambda>d. oid d = i) (drivers s) = Some d0"
    and "b ''action'' \<noteq> Some (JStr ''start_tracking'')"
  shows "\<exists>d. fst (applyTrackingCommand e s b) = Json (TrackingOk d)
           \<and> find (\<lambda>d. oid d = i) (drivers (snd (applyTrackingCommand e s b))) = Some d
           \<and> d = d0\<lparr>isTracking := False, consentGiven := False, consentTimestamp := None,
                    updatedAt := now e\<rparr>
           \<and> consentGiven d = False \<and> consentTimestamp d = None
           \<and> trackingHistory d = trackingHistory d0 \<and> lastLocation d = lastLocation d0
           \<and> name d = name d0 \<and> phone d = phone d0"
proof -
  let ?f = "\<lambda>d. (trackingUpdate e (b ''action'') d)\<lparr>updatedAt := now e\<rparr>"
  let ?d = "d0\<lparr>isTracking := False, consentGiven := False, consentTimestamp := None,
                updatedAt := now e\<rparr>"
  have eq: "?f d0 = ?d"
    by (rule trackingUpdate_stop [OF assms(4)])
  have hit: "applyTrackingCommand e s b =
               (Json (TrackingOk (?f d0)),
                s\<lparr>drivers := updateFirst (\<lambda>d. oid d = i) ?f (drivers s)\<rparr>)"
    using assms(1-3) by (rule tracking_hit [of e b i s d0])
  have i: "oid (?f d0) = i"
    using find_oid_eq [OF assms(3)] by (simp only: trackingUpdate_oid)
  have 1: "fst (applyTrackingCommand e s b) = Json (TrackingOk ?d)"
    by (simp only: hit fst_conv eq)
  have "find (\<lambda>d. oid d = i) (updateFirst (\<lambda>d. oid d = i) ?f (drivers s)) = Some (?f d0)"
    using assms(3) i by (rule find_updateFirst [of "\<lambda>d. oid d = i" "drivers s" d0 ?f])
  then have 2: "find (\<lambda>d. oid d = i) (drivers (snd (applyTrackingCommand e s b))) = Some ?d"
    unfolding hit snd_conv eq by simp
  have 3: "consentGiven ?d = False \<and> consentTimestamp ?d = None
           \<and> trackingHistory ?d = trackingHistory d0 \<and> lastLocation ?d = lastLocation d0
           \<and> name ?d = name d0 \<and> phone ?d = phone d0"
    by simp
  show ?thesis
    by (rule exI [of _ ?d]) (intro conjI 1 2 refl 3 [THEN conjunct1]; simp)
qed

theorem stop_clears_consent_only_witness:
  "up testEnv
   \<and> (\<exists>d. fst (applyTrackingCommand testEnv dbA stopActionA) = Json (TrackingOk d)
           \<and> find (\<lambda>d. oid d = 1) (drivers (snd (applyTrackingCommand testEnv dbA stopActionA)))
               = Some d
           \<and> d = driverA\<lparr>isTracking := False, consentGiven := False, consentTimestamp := None,
                         updatedAt := now testEnv\<rparr>
           \<and> consentGiven d = False \<and> consentTimestamp d = None
           \<and> trackingHistory d = trackingHistory driverA
           \<and> lastLocation d = lastLocation driverA
           \<and> name d = name driverA \<and> phone d = phone driverA)"
proof -
  have 2: "castObjectId (stopActionA ''driverId'') = Inr (Some 1)"
    by (simp add: stopActionA_def castObjectId_idA)
  have 3: "find (\<lambda>d. oid d = 1) (drivers dbA) = Some driverA"
    by (simp add: dbA_def driverA_def)
  have 4: "stopActionA ''action'' \<noteq> Some (JStr ''start_tracking'')"
    by (simp add: stopActionA_def)
  show ?thesis
    by (rule conjI [OF testEnv_up
          stop_clears_consent_only [of testEnv stopActionA 1 dbA driverA, OF testEnv_up 2 3 4]])
qed

subsection \<open>Location updates\<close>

lemma numeric_payload_casts:
  assumes "b ''latitude'' = Some (JNum la)" and "b ''longitude'' = Some (JNum lo)"
    and "b ''accuracy'' = None \<or> (\<exists>r. b ''accuracy'' = Some (JNum r))"
    and "b ''speed'' = None \<or> (\<exists>r. b ''speed'' = Some (JNum r))"
    and "newDate e (b ''timestamp'') = Some t"
  shows "\<exists>l. castLocation e b = Inr l"
  using assms by (auto simp: castLocation_def castDate_def orZero_def)

text \<open>
  Claim C10, as stated, fails: not every valid payload is accepted. A payload with
  numeric latitude and longitude and no time stamp is valid by the specification (the
  receipt time would be substituted), yet for an existing driver that is not tracking it
  is answered with status 500 and nothing is written.
\<close>

theorem valid_payload_refused_counterexample:
  "drivers dbIdle = [idleDriverA] \<and> oid idleDriverA = 1 \<and> isTracking idleDriverA = False
   \<and> castObjectId (noTimestampA ''driverId'') = Inr (Some 1)
   \<and> noTimestampA ''latitude'' = Some (JNum 44.43)
   \<and> noTimestampA ''longitude'' = Some (JNum 26.1)
   \<and> noTimestampA ''timestamp'' = None
   \<and> applyLocationUpdate testEnv dbIdle noTimestampA = (Status500 CastError, dbIdle)"
  by (simp add: dbIdle_def idleDriverA_def driverA_def noTimestampA_def applyLocationUpdate_def
      locationUpdate_def castLocation_def findOneAndUpdate_def castDate_def idA_def
      hexDigit_def)

text \<open>
  Claim C10, amended. For a driver that exists and a payload that passes the casts of
  the schema (latitude, longitude, accuracy and speed cast to numbers, and
  \<^verbatim>\<open>new Date(timestamp)\<close> is a valid date), the location update succeeds whatever
  \<open>isTracking\<close> is (the handler never reads it), and the stored driver differs from
  the old one in \<open>lastLocation\<close> and \<open>trackingHistory\<close> (and the bookkeeping field
  \<open>updatedAt\<close>) only: \<open>isTracking\<close>, \<open>consentGiven\<close>, \<open>consentTimestamp\<close>,
  \<open>name\<close> and \<open>phone\<close> are unchanged. By \<open>numeric_payload_casts\<close>, the payloads
  with numeric coordinates and such a time stamp are among those that pass.
\<close>

theorem location_accepted_when_idle:
  assumes "up e"
    and "castObjectId (b ''driverId'') = Inr (Some i)"
    and "find (\<lambda>d. oid d = i) (drivers s) = Some d0"
    and "castLocation e b = Inr l"
  shows "\<exists>d. fst (applyLocationUpdate e s b) = Json Success
           \<and> find (\<lambda>d. oid d = i) (drivers (snd (applyLocationUpdate e s b))) = Some d
           \<and> d = d0\<lparr>lastLocation := l, trackingHistory := trackingHistory d0 @ [l],
                    updatedAt := now e\<rparr>
           \<and> isTracking d = isTracking d0 \<and> consentGiven d = consentGiven d0
           \<and> consentTimestamp d = consentTimestamp d0
           \<and> name d = name d0 \<and> phone d = phone d0"
proof -
  let ?f = "\<lambda>d. d\<lparr>lastLocation := l, trackingHistory := trackingHistory d @ [l],
                    updatedAt := now e\<rparr>"
  have hit: "applyLocationUpdate e s b =
               (Json Success, s\<lparr>drivers := updateFirst (\<lambda>d. oid d = i) ?f (drivers s)\<rparr>)"
    using assms by (rule location_hit [of e b i s d0 l])
  have i: "oid (?f d0) = i"
    using find_oid_eq [OF assms(3)] by simp
  have 1: "fst (applyLocationUpdate e s b) = Json Success"
    by (simp only: hit fst_conv)
  have "find (\<lambda>d. oid d = i) (updateFirst (\<lambda>d. oid d = i) ?f (drivers s)) = Some (?f d0)"
    using assms(3) i by (rule find_updateFirst [of "\<lambda>d. oid d = i" "drivers s" d0 ?f])
  then have 2: "find (\<lambda>d. oid d = i) (drivers (snd (applyLocationUpdate e s b))) = Some (?f d0)"
    unfolding hit snd_conv by simp
  show ?thesis
    by (rule exI [of _ "?f d0"]) (intro conjI 1 2 refl; simp)
qed

theorem location_accepted_when_idle_witness:
  "up testEnv \<and> isTracking idleDriverA = False
   \<and> (\<exists>d. fst (applyLocationUpdate testEnv dbIdle goodLocationA) = Json Success
           \<and> find (\<lambda>d. oid d = 1) (drivers (snd (applyLocationUpdate testEnv dbIdle goodLocationA)))
               = Some d
           \<and> d = idleDriverA\<lparr>lastLocation := locationA,
                             trackingHistory := trackingHistory idleDriverA @ [locationA],
                             updatedAt := now testEnv\<rparr>
           \<and> isTracking d = isTracking idleDriverA
           \<and> consentGiven d = consentGiven idleDriverA
           \<and> consentTimestamp d = consentTimestamp idleDriverA
           \<and> name d = name idleDriverA \<and> phone d = phone idleDriverA)"
proof -
  have 0: "isTracking idleDriverA = False"
    by (simp add: idleDriverA_def)
  have 2: "castObjectId (goodLocationA ''driverId'') = Inr (Some 1)"
    by (simp add: goodLocationA_def castObjectId_idA)
  have 3: "find (\<lambda>d. oid d = 1) (drivers dbIdle) = Some idleDriverA"
    by (simp add: dbIdle_def idleDriverA_def driverA_def)
  show ?thesis
    by (intro conjI testEnv_up 0
          location_accepted_when_idle [of testEnv goodLocationA 1 dbIdle idleDriverA locationA,
            OF testEnv_up 2 3 castLocation_goodLocationA])
qed

subsection \<open>Seeding and listing\<close>

lemma seedSampleDrivers_up:
  "up e \<Longrightarrow>
   seedSampleDrivers e s =
     (Json (SeedOk 4),
      \<lparr>drivers = map (\<lambda>(k, np). newDriver e (nextId s + k) np) (enumerate 0 sampleDrivers),
       nextId = nextId s + 4\<rparr>)"
  by (simp add: seedSampleDrivers_def deleteMany_def insertMany_def sampleDrivers_def Let_def)

text \<open>
  Claim C8. When the store answers, seeding deletes whatever drivers there were and
  inserts the fixed roster: the answer is the count 4, and the store afterwards holds
  exactly four drivers, the new documents of the four roster entries in roster order,
  whatever the store held before.
\<close>

theorem seed_replaces_roster:
  assumes "up e"
  shows "fst (seedSampleDrivers e s) = Json (SeedOk 4)
       \<and> drivers (snd (seedSampleDrivers e s)) =
           map (\<lambda>(k, np). newDriver e (nextId s + k) np) (enumerate 0 sampleDrivers)
       \<and> length (drivers (snd (seedSampleDrivers e s))) = 4
       \<and> map (\<lambda>d. (name d, phone d)) (drivers (snd (seedSampleDrivers e s))) = sampleDrivers"
proof -
  have r: "seedSampleDrivers e s =
     (Json (SeedOk 4),
      \<lparr>drivers = map (\<lambda>(k, np). newDriver e (nextId s + k) np) (enumerate 0 sampleDrivers),
       nextId = nextId s + 4\<rparr>)"
    using assms by (rule seedSampleDrivers_up)
  show ?thesis
    unfolding r by (simp add: sampleDrivers_def newDriver_def)
qed

theorem seed_replaces_roster_witness:
  "up testEnv
   \<and> fst (seedSampleDrivers testEnv dbAB) = Json (SeedOk 4)
   \<and> drivers (snd (seedSampleDrivers testEnv dbAB)) =
       map (\<lambda>(k, np). newDriver testEnv (nextId dbAB + k) np) (enumerate 0 sampleDrivers)
   \<and> length (drivers (snd (seedSampleDrivers testEnv dbAB))) = 4
   \<and> map (\<lambda>d. (name d, phone d)) (drivers (snd (seedSampleDrivers testEnv dbAB))) = sampleDrivers"
  by (rule conjI [OF testEnv_up seed_replaces_roster [of testEnv dbAB, OF testEnv_up]])

lemma mset_insertNewest: "mset (insertNewest d xs) = add_mset d (mset xs)"
  by (induction xs) auto

lemma set_insertNewest: "set (insertNewest d xs) = insert d (set xs)"
  by (induction xs) auto

lemma sorted_insertNewest:
  "sorted_wrt (\<lambda>a b. createdAt b \<le> createdAt a) xs \<Longrightarrow>
   sorted_wrt (\<lambda>a b. createdAt b \<le> createdAt a) (insertNewest d xs)"
  by (induction xs) (auto simp: set_insertNewest)

lemma mset_sortNewestFirst: "mset (sortNewestFirst ds) = mset ds"
  unfolding sortNewestFirst_def by (induction ds) (simp_all add: mset_insertNewest)

lemma sorted_sortNewestFirst:
  "sorted_wrt (\<lambda>a b. createdAt b \<le> createdAt a) (sortNewestFirst ds)"
  unfolding sortNewestFirst_def by (induction ds) (simp_all add: sorted_insertNewest)

lemma listDrivers_example: "listDrivers testEnv dbAB = Json (Drivers [driverB, driverA])"
  by (simp add: listDrivers_def findSorted_def testEnv_def dbAB_def sortNewestFirst_def
      driverA_def driverB_def)

text \<open>
  Claim C9. Listing answers with a list in every case, never with an error status. When
  the store does not answer, the list is the fixed pair of placeholder drivers, which is
  not empty. When the store answers, the list holds exactly the stored drivers, each as
  often as it is stored, ordered by \<open>createdAt\<close> from newest to oldest.
\<close>

theorem listDrivers_degrades:
  "(\<forall>err. listDrivers e s \<noteq> Status500 err) \<and> listDrivers e s \<noteq> Status404
   \<and> (\<not> up e \<longrightarrow> listDrivers e s = Json (Fallback mockDrivers) \<and> mockDrivers \<noteq> [])
   \<and> (up e \<longrightarrow>
         (\<exists>ds. listDrivers e s = Json (Drivers ds) \<and> mset ds = mset (drivers s)
            \<and> sorted_wrt (\<lambda>a b. createdAt b \<le> createdAt a) ds))"
proof (cases "up e")
  case True
  then have "listDrivers e s = Json (Drivers (sortNewestFirst (drivers s)))"
    by (simp add: listDrivers_def findSorted_def)
  then show ?thesis
    using True by (simp add: mset_sortNewestFirst sorted_sortNewestFirst)
next
  case False
  then have "listDrivers e s = Json (Fallback mockDrivers)"
    by (simp add: listDrivers_def findSorted_def)
  then show ?thesis
    using False by (simp add: mockDrivers_def)
qed

theorem listDrivers_degrades_witness:
  "up testEnv \<and> \<not> up downEnv
   \<and> listDrivers downEnv dbAB = Json (Fallback mockDrivers) \<and> mockDrivers \<noteq> []
   \<and> (\<exists>ds. listDrivers testEnv dbAB = Json (Drivers ds) \<and> mset ds = mset (drivers dbAB)
         \<and> sorted_wrt (\<lambda>a b. createdAt b \<le> createdAt a) ds)"
proof -
  have d: "\<not> up downEnv"
    by (simp add: downEnv_def)
  have 1: "listDrivers downEnv dbAB = Json (Fallback mockDrivers) \<and> mockDrivers \<noteq> []"
    using listDrivers_degrades [of downEnv dbAB] d by (simp only: simp_thms)
  have 2: "\<exists>ds. listDrivers testEnv dbAB = Json (Drivers ds) \<and> mset ds = mset (drivers dbAB)
         \<and> sorted_wrt (\<lambda>a b. createdAt b \<le> createdAt a) ds"
    using listDrivers_degrades [of testEnv dbAB] testEnv_up by (simp only: simp_thms)
  show ?thesis
    using testEnv_up d 1 2 by (simp only: simp_thms)
qed

lemma castObjectId_error: "castObjectId v = Inl err \<Longrightarrow> err = CastError"
  by (cases v rule: castObjectId.cases) (auto split: if_splits option.splits)

lemma castNumber_error: "castNumber e v = Inl err \<Longrightarrow> err = CastError"
  by (cases "(e, v)" rule: castNumber.cases) (auto split: if_splits option.splits)

lemma castDate_error: "castDate d = Inl err \<Longrightarrow> err = CastError"
  by (auto simp: castDate_def split: option.splits)

lemma castLocation_error: "castLocation e b = Inl err \<Longrightarrow> err = CastError"
  by (auto simp: castLocation_def andThen_def Let_def split: sum.splits
      dest: castNumber_error castDate_error)



lemma castLocation_timestamp_fails:
  assumes "newDate e (b ''timestamp'') = None"
  shows "castLocation e b = Inl CastError"
proof -
  have "castDate (newDate e (b ''timestamp'')) = Inl CastError"
    using assms by (simp add: castDate_def)
  then have "\<exists>err. castLocation e b = Inl err"
    by (auto simp: castLocation_def andThen_def Let_def split: sum.splits)
  then show ?thesis
    using castLocation_error by blast
qed

lemma findOneAndUpdate_update_fails:
  "findOneAndUpdate e s v (Inl CastError) = Inl CastError"
  by (cases "castObjectId v") (auto simp: findOneAndUpdate_def dest: castObjectId_error)

lemma location_cast_fails:
  assumes "castLocation e b = Inl CastError"
  shows "applyLocationUpdate e s b = (Status500 CastError, s)"
  by (simp add: applyLocationUpdate_def locationUpdate_def assms findOneAndUpdate_update_fails)




text \<open>
  Claim C4, as stated, fails: with no time stamp in the payload, the handler builds
  \<^verbatim>\<open>new Date(undefined)\<close>, an invalid date, never reads the clock, and the update is
  refused; the receipt time is not stored, nothing is.
\<close>

theorem absent_timestamp_counterexample:
  "noTimestampA ''timestamp'' = None
   \<and> applyLocationUpdate testEnv dbA noTimestampA = (Status500 CastError, dbA)"
  by (simp add: noTimestampA_def applyLocationUpdate_def locationUpdate_def castLocation_def
      findOneAndUpdate_def castDate_def idA_def hexDigit_def)

text \<open>
  Claim C4, amended. A location update whose time stamp is absent, or is a string that
  does not parse to a date, is answered with status 500 (the cast error of the store)
  and nothing is stored; no other time is substituted in either case.
\<close>

theorem absent_or_invalid_timestamp_rejected:
  assumes "b ''timestamp'' = None
         \<or> (\<exists>t. b ''timestamp'' = Some (JStr t) \<and> dateParse e t = None)"
  shows "applyLocationUpdate e s b = (Status500 CastError, s)"
proof -
  from assms have "newDate e (b ''timestamp'') = None"
    by auto
  then have "castLocation e b = Inl CastError"
    by (rule castLocation_timestamp_fails)
  then show ?thesis
    by (rule location_cast_fails)
qed

theorem absent_or_invalid_timestamp_rejected_witness:
  "badTimestampA ''timestamp'' = Some (JStr ''yesterday'')
   \<and> dateParse testEnv ''yesterday'' = None
   \<and> applyLocationUpdate testEnv dbA badTimestampA = (Status500 CastError, dbA)"
proof -
  have 1: "badTimestampA ''timestamp'' = Some (JStr ''yesterday'')
             \<and> dateParse testEnv ''yesterday'' = None"
    by (simp add: badTimestampA_def testEnv_def)
  then have "badTimestampA ''timestamp'' = None
           \<or> (\<exists>t. badTimestampA ''timestamp'' = Some (JStr t) \<and> dateParse testEnv t = None)"
    by blast
  then have "applyLocationUpdate testEnv dbA badTimestampA = (Status500 CastError, dbA)"
    by (rule absent_or_invalid_timestamp_rejected [of badTimestampA testEnv dbA])
  with 1 show ?thesis
    by (simp only: simp_thms)
qed

subsection \<open>Unknown drivers\<close>

lemma tracking_miss:
  assumes "\<forall>i. castObjectId (b ''driverId'') = Inr (Some i) \<longrightarrow> i \<notin> oid ` set (drivers s)"
  shows "snd (applyTrackingCommand e s b) = s"
proof -
  let ?r = "findOneAndUpdate e s (b ''driverId'') (Inr (trackingUpdate e (b ''action'')))"
  have "?r = Inr (None, s) \<or> (\<exists>err. ?r = Inl err)"
    using assms by (rule findOneAndUpdate_error_or_same)
  then show ?thesis
    by (auto simp: applyTrackingCommand_def)
qed

lemma location_miss:
  assumes "\<forall>i. castObjectId (b ''driverId'') = Inr (Some i) \<longrightarrow> i \<notin> oid ` set (drivers s)"
  shows "snd (applyLocationUpdate e s b) = s"
proof -
  let ?r = "findOneAndUpdate e s (b ''driverId'') (locationUpdate e b)"
  have "?r = Inr (None, s) \<or> (\<exists>err. ?r = Inl err)"
    using assms by (rule findOneAndUpdate_error_or_same)
  then show ?thesis
    by (auto simp: applyLocationUpdate_def)
qed

lemma findOneAndUpdate_not_found:
  assumes "up e"
    and "castObjectId v = Inr q"
    and "\<forall>i. q = Some i \<longrightarrow> i \<notin> oid ` set (drivers s)"
  shows "findOneAndUpdate e s v (Inr f) = Inr (None, s)"
proof (cases q)
  case None
  then show ?thesis
    using assms(1,2) by (simp add: findOneAndUpdate_def)
next
  case (Some i)
  then have "find (\<lambda>d. oid d = i) (drivers s) = None"
    using assms(3) by (simp add: find_oid_None)
  then show ?thesis
    using assms(1,2) Some by (simp add: findOneAndUpdate_def)
qed

text \<open>
  Claim C5, as stated, fails: an identifier that no driver has is answered with status
  500, not 404, when it is not a well-formed identifier. The placeholder drivers of the
  degraded listing carry the identifiers \<^verbatim>\<open>1\<close> and \<^verbatim>\<open>2\<close>; a tracking command for
  \<^verbatim>\<open>1\<close> fails in the cast of the filter.
\<close>

theorem placeholder_identifier_counterexample:
  "placeholderIdA ''driverId'' = Some (JStr ''1'')
   \<and> applyTrackingCommand testEnv dbA placeholderIdA = (Status500 CastError, dbA)"
  by (simp add: placeholderIdA_def applyTrackingCommand_def findOneAndUpdate_def)

lemma findOneAndUpdate_id_fails:
  "castObjectId v = Inl err \<Longrightarrow> findOneAndUpdate e s v u = Inl CastError"
  by (auto simp: findOneAndUpdate_def dest: castObjectId_error)

lemma findOneAndUpdate_down:
  "castObjectId v = Inr q \<Longrightarrow> \<not> up e \<Longrightarrow> findOneAndUpdate e s v (Inr f) = Inl StoreUnavailable"
  by (simp add: findOneAndUpdate_def)

text \<open>
  Claim C5, amended. When no stored driver has the identifier of the request, a tracking
  command and a location update create no driver and leave the whole store as it was, so
  that a listing afterwards is the listing before. The answer is status 404 when the
  identifier is well formed (or absent), the store answers and, for a location update,
  the payload passes the casts of the schema. Otherwise the answer is status 500: with
  the cast error when the identifier is not well formed or, for a location update, the
  payload fails a cast, and else with the error of the store that does not answer.
\<close>

theorem unknown_driver_not_created:
  assumes "\<forall>i. castObjectId (b ''driverId'') = Inr (Some i) \<longrightarrow> i \<notin> oid ` set (drivers s)"
  shows "snd (applyTrackingCommand e s b) = s \<and> snd (applyLocationUpdate e s b) = s
       \<and> listDrivers e' (snd (applyTrackingCommand e s b)) = listDrivers e' s
       \<and> listDrivers e' (snd (applyLocationUpdate e s b)) = listDrivers e' s
       \<and> fst (applyTrackingCommand e s b) =
           (if \<exists>q. castObjectId (b ''driverId'') = Inr q
            then (if up e then Status404 else Status500 StoreUnavailable)
            else Status500 CastError)
       \<and> fst (applyLocationUpdate e s b) =
           (if (\<exists>q. castObjectId (b ''driverId'') = Inr q) \<and> (\<exists>l. castLocation e b = Inr l)
            then (if up e then Status404 else Status500 StoreUnavailable)
            else Status500 CastError)"
proof -
  have t: "snd (applyTrackingCommand e s b) = s"
    using assms by (rule tracking_miss)
  have l: "snd (applyLocationUpdate e s b) = s"
    using assms by (rule location_miss)
  have ft: "fst (applyTrackingCommand e s b) =
           (if \<exists>q. castObjectId (b ''driverId'') = Inr q
            then (if up e then Status404 else Status500 StoreUnavailable)
            else Status500 CastError)"
  proof (cases "castObjectId (b ''driverId'')")
    case (Inl err)
    then have "findOneAndUpdate e s (b ''driverId'') (Inr (trackingUpdate e (b ''action'')))
                 = Inl CastError"
      by (rule findOneAndUpdate_id_fails)
    then show ?thesis
      using Inl by (simp add: applyTrackingCommand_def)
  next
    case (Inr q)
    show ?thesis
    proof (cases "up e")
      case True
      have "\<forall>i. q = Some i \<longrightarrow> i \<notin> oid ` set (drivers s)"
        using assms Inr by simp
      with True Inr
      have "findOneAndUpdate e s (b ''driverId'') (Inr (trackingUpdate e (b ''action'')))
              = Inr (None, s)"
        by (rule findOneAndUpdate_not_found)
      then show ?thesis
        using Inr True by (simp add: applyTrackingCommand_def)
    next
      case False
      with Inr
      have "findOneAndUpdate e s (b ''driverId'') (Inr (trackingUpdate e (b ''action'')))
              = Inl StoreUnavailable"
        by (rule findOneAndUpdate_down)
      then show ?thesis
        using Inr False by (simp add: applyTrackingCommand_def)
    qed
  qed
  have fl: "fst (applyLocationUpdate e s b) =
           (if (\<exists>q. castObjectId (b ''driverId'') = Inr q) \<and> (\<exists>l. castLocation e b = Inr l)
            then (if up e then Status404 else Status500 StoreUnavailable)
            else Status500 CastError)"
  proof (cases "castLocation e b")
    case (Inl err)
    then have "castLocation e b = Inl CastError"
      using castLocation_error by blast
    then have "applyLocationUpdate e s b = (Status500 CastError, s)"
      by (rule location_cast_fails)
    then show ?thesis
      using Inl by simp
  next
    case loc: (Inr x)
    let ?f = "\<lambda>d. d\<lparr>lastLocation := x, trackingHistory := trackingHistory d @ [x]\<rparr>"
    have u: "locationUpdate e b = Inr ?f"
      by (simp add: locationUpdate_def loc)
    show ?thesis
    proof (cases "castObjectId (b ''driverId'')")
      case (Inl err)
      then have "findOneAndUpdate e s (b ''driverId'') (locationUpdate e b) = Inl CastError"
        by (rule findOneAndUpdate_id_fails)
      then show ?thesis
        using Inl by (simp add: applyLocationUpdate_def)
    next
      case (Inr q)
      show ?thesis
      proof (cases "up e")
        case True
        have "\<forall>i. q = Some i \<longrightarrow> i \<notin> oid ` set (drivers s)"
          using assms Inr by simp
        with True Inr have "findOneAndUpdate e s (b ''driverId'') (Inr ?f) = Inr (None, s)"
          by (rule findOneAndUpdate_not_found)
        then show ?thesis
          using Inr True loc by (simp add: applyLocationUpdate_def u)
      next
        case False
        with Inr have "findOneAndUpdate e s (b ''driverId'') (Inr ?f) = Inl StoreUnavailable"
          by (rule findOneAndUpdate_down)
        then show ?thesis
          using Inr False loc by (simp add: applyLocationUpdate_def u)
      qed
    qed
  qed
  show ?thesis
    by (intro conjI t l ft fl) (simp_all only: t l)
qed

theorem unknown_driver_not_created_witness:
  "castObjectId (unknownIdA ''driverId'') = Inr (Some 255)
   \<and> 255 \<notin> oid ` set (drivers dbA)
   \<and> applyTrackingCommand testEnv dbA unknownIdA = (Status404, dbA)
   \<and> applyLocationUpdate testEnv dbA unknownIdA = (Status404, dbA)
   \<and> listDrivers testEnv (snd (applyTrackingCommand testEnv dbA unknownIdA))
       = listDrivers testEnv dbA
   \<and> listDrivers testEnv (snd (applyLocationUpdate testEnv dbA unknownIdA))
       = listDrivers testEnv dbA
   \<and> applyTrackingCommand downEnv dbA unknownIdA = (Status500 StoreUnavailable, dbA)
   \<and> applyLocationUpdate downEnv dbA unknownIdA = (Status500 StoreUnavailable, dbA)
   \<and> applyTrackingCommand testEnv dbA unknownNoTimeA = (Status404, dbA)
   \<and> applyLocationUpdate testEnv dbA unknownNoTimeA = (Status500 CastError, dbA)
   \<and> applyLocationUpdate testEnv dbA placeholderIdA = (Status500 CastError, dbA)"
proof -
  have c: "castObjectId (unknownIdA ''driverId'') = Inr (Some 255)"
    by (simp add: unknownIdA_def hexDigit_def)
  have c2: "castObjectId (unknownNoTimeA ''driverId'') = Inr (Some 255)"
    by (simp add: unknownNoTimeA_def hexDigit_def)
  have c3: "castObjectId (placeholderIdA ''driverId'') = Inl CastError"
    by (simp add: placeholderIdA_def)
  have n: "255 \<notin> oid ` set (drivers dbA)"
    by (simp add: dbA_def driverA_def)
  have l: "castLocation testEnv unknownIdA = Inr locationA"
    by (simp add: castLocation_def unknownIdA_def testEnv_def castDate_def orZero_def
        locationA_def)
  have ld: "castLocation downEnv unknownIdA = Inr locationA"
    by (simp add: castLocation_def unknownIdA_def testEnv_def downEnv_def castDate_def
        orZero_def locationA_def)
  have l2: "castLocation testEnv unknownNoTimeA = Inl CastError"
    by (simp add: castLocation_def unknownNoTimeA_def castDate_def)
  have d: "\<not> up downEnv"
    by (simp add: downEnv_def)
  have h: "\<forall>i. castObjectId (unknownIdA ''driverId'') = Inr (Some i)
              \<longrightarrow> i \<notin> oid ` set (drivers dbA)"
    using c n by simp
  have h2: "\<forall>i. castObjectId (unknownNoTimeA ''driverId'') = Inr (Some i)
              \<longrightarrow> i \<notin> oid ` set (drivers dbA)"
    using c2 n by simp
  have h3: "\<forall>i. castObjectId (placeholderIdA ''driverId'') = Inr (Some i)
              \<longrightarrow> i \<notin> oid ` set (drivers dbA)"
    using c3 by simp
  note 1 = unknown_driver_not_created [of unknownIdA dbA testEnv testEnv, OF h]
  note 2 = unknown_driver_not_created [of unknownIdA dbA downEnv testEnv, OF h]
  note 3 = unknown_driver_not_created [of unknownNoTimeA dbA testEnv testEnv, OF h2]
  note 4 = unknown_driver_not_created [of placeholderIdA dbA testEnv testEnv, OF h3]
  have a1: "applyTrackingCommand testEnv dbA unknownIdA = (Status404, dbA)"
    and a2: "applyLocationUpdate testEnv dbA unknownIdA = (Status404, dbA)"
    using 1 c l testEnv_up by (simp_all add: prod_eq_iff)
  have a3: "listDrivers testEnv (snd (applyTrackingCommand testEnv dbA unknownIdA))
              = listDrivers testEnv dbA"
    and a4: "listDrivers testEnv (snd (applyLocationUpdate testEnv dbA unknownIdA))
              = listDrivers testEnv dbA"
    using 1 by (simp_all only:)
  have b1: "applyTrackingCommand downEnv dbA unknownIdA = (Status500 StoreUnavailable, dbA)"
    and b2: "applyLocationUpdate downEnv dbA unknownIdA = (Status500 StoreUnavailable, dbA)"
    using 2 c ld d by (simp_all add: prod_eq_iff)
  have c1: "applyTrackingCommand testEnv dbA unknownNoTimeA = (Status404, dbA)"
    and c2': "applyLocationUpdate testEnv dbA unknownNoTimeA = (Status500 CastError, dbA)"
    using 3 c2 l2 testEnv_up by (simp_all add: prod_eq_iff)
  have d1: "applyLocationUpdate testEnv dbA placeholderIdA = (Status500 CastError, dbA)"
    using 4 c3 by (simp add: prod_eq_iff)
  show ?thesis
    by (intro conjI c n a1 a2 a3 a4 b1 b2 c1 c2' d1)
qed












lemma length_locationWrites: "length (locationWrites e s b) \<le> 1"
  by (simp add: locationWrites_def split: sum.splits prod.splits)

lemma locationWrites_both_or_neither:
  assumes "s' \<in> set (locationWrites e s b)"
  shows "s' = s
       \<or> (\<exists>i l. castLocation e b = Inr l
              \<and> s' = s\<lparr>drivers := updateFirst (\<lambda>d. oid d = i)
                         (\<lambda>d. d\<lparr>lastLocation := l, trackingHistory := trackingHistory d @ [l],
                                updatedAt := now e\<rparr>)
                         (drivers s)\<rparr>)"
  using assms
  by (auto simp: locationWrites_def locationUpdate_def findOneAndUpdate_def andThen_def
      split: sum.splits if_splits option.splits)



lemma history_example:
  "map trackingHistory (drivers (snd (submitAll dbA threeUpdatesA)))
     = [[locationA, locationNoLat, locationSpeed]]
   \<and> map lastLocation (drivers (snd (submitAll dbA threeUpdatesA))) = [locationSpeed]"
  by (simp add: threeUpdatesA_def applyLocationUpdate_def locationUpdate_def castLocation_def
      findOneAndUpdate_def castDate_def orZero_def timeClip_def testEnv_def laterEnv_def
      dbA_def driverA_def idA_def hexDigit_def goodLocationA_def noLatitudeA_def
      speedLocationA_def locationA_def locationNoLat_def locationSpeed_def)


subsection \<open>The consent invariant\<close>

lemma consentInv_newDriver: "consentInv (newDriver e i np)"
  by (simp add: consentInv_def newDriver_def)

lemma consentInv_trackingUpdate: "consentInv ((trackingUpdate e a d)\<lparr>updatedAt := t\<rparr>)"
  by (simp add: consentInv_def trackingUpdate_def)

lemma consentInv_location:
  "consentInv d \<Longrightarrow>
   consentInv (d\<lparr>lastLocation := l, trackingHistory := h, updatedAt := t\<rparr>)"
  by (simp add: consentInv_def)

lemma findOneAndUpdate_pres:
  assumes "findOneAndUpdate e s v (Inr f) = Inr (x, s')"
    and "\<And>d. P d \<Longrightarrow> P ((f d)\<lparr>updatedAt := now e\<rparr>)"
    and "\<forall>d\<in>set (drivers s). P d"
  shows "\<forall>d\<in>set (drivers s'). P d"
proof -
  have "s' = s \<or> (\<exists>i. s' = s\<lparr>drivers := updateFirst (\<lambda>d. oid d = i)
                                     (\<lambda>d. (f d)\<lparr>updatedAt := now e\<rparr>) (drivers s)\<rparr>)"
    using assms(1)
    by (auto simp: findOneAndUpdate_def andThen_def split: sum.splits if_splits option.splits)
  then show ?thesis
  proof
    assume "s' = s"
    then show ?thesis
      using assms(3) by simp
  next
    assume "\<exists>i. s' = s\<lparr>drivers := updateFirst (\<lambda>d. oid d = i)
                                   (\<lambda>d. (f d)\<lparr>updatedAt := now e\<rparr>) (drivers s)\<rparr>"
    then obtain i where s': "s' = s\<lparr>drivers := updateFirst (\<lambda>d. oid d = i)
                                   (\<lambda>d. (f d)\<lparr>updatedAt := now e\<rparr>) (drivers s)\<rparr>"
      by blast
    have "\<forall>d\<in>set (updateFirst (\<lambda>d. oid d = i) (\<lambda>d. (f d)\<lparr>updatedAt := now e\<rparr>) (drivers s)). P d"
      using assms(3)
    proof (rule updateFirst_pres [of "drivers s" P "\<lambda>d. (f d)\<lparr>updatedAt := now e\<rparr>" "\<lambda>d. oid d = i"])
      fix d
      assume "P d"
      then show "P ((f d)\<lparr>updatedAt := now e\<rparr>)"
        by (rule assms(2))
    qed
    then show ?thesis
      by (simp add: s')
  qed
qed

lemma tracking_pres:
  assumes "\<forall>d\<in>set (drivers s). consentInv d"
  shows "\<forall>d\<in>set (drivers (snd (applyTrackingCommand e s b))). consentInv d"
proof (cases "findOneAndUpdate e s (b ''driverId'') (Inr (trackingUpdate e (b ''action'')))")
  case (Inl err)
  then show ?thesis
    using assms by (simp add: applyTrackingCommand_def)
next
  case (Inr r)
  obtain x s' where r: "r = (x, s')"
    by (cases r)
  have "\<forall>d\<in>set (drivers s'). consentInv d"
    using Inr [unfolded r] _ assms
    by (rule findOneAndUpdate_pres
          [of e s "b ''driverId''" "trackingUpdate e (b ''action'')" x s' consentInv])
       (rule consentInv_trackingUpdate)
  moreover have "snd (applyTrackingCommand e s b) = s'"
    by (cases x) (simp_all add: applyTrackingCommand_def Inr r)
  ultimately show ?thesis
    by simp
qed

lemma location_pres:
  assumes "\<forall>d\<in>set (drivers s). consentInv d"
  shows "\<forall>d\<in>set (drivers (snd (applyLocationUpdate e s b))). consentInv d"
proof (cases "castLocation e b")
  case (Inl err)
  then have "err = CastError"
    by (rule castLocation_error)
  with Inl have "applyLocationUpdate e s b = (Status500 CastError, s)"
    by (simp add: location_cast_fails)
  then show ?thesis
    using assms by simp
next
  case (Inr l)
  let ?f = "\<lambda>d. d\<lparr>lastLocation := l, trackingHistory := trackingHistory d @ [l]\<rparr>"
  have u: "locationUpdate e b = Inr ?f"
    by (simp add: locationUpdate_def Inr)
  show ?thesis
  proof (cases "findOneAndUpdate e s (b ''driverId'') (Inr ?f)")
    case (Inl err)
    then show ?thesis
      using assms by (simp add: applyLocationUpdate_def u)
  next
    case r: (Inr r)
    obtain x s' where xs: "r = (x, s')"
      by (cases r)
    have "\<forall>d\<in>set (drivers s'). consentInv d"
      using r [unfolded xs] _ assms
      by (rule findOneAndUpdate_pres [of e s "b ''driverId''" ?f x s' consentInv])
         (simp add: consentInv_def)
    moreover have "snd (applyLocationUpdate e s b) = s'"
      by (cases x) (simp_all add: applyLocationUpdate_def u r xs)
    ultimately show ?thesis
      by simp
  qed
qed

lemma seed_pres:
  "\<forall>d\<in>set (drivers s). consentInv d \<Longrightarrow>
   \<forall>d\<in>set (drivers (snd (seedSampleDrivers e s))). consentInv d"
  by (cases "up e")
     (auto simp: seedSampleDrivers_def deleteMany_def insertMany_def Let_def consentInv_newDriver)

lemma create_pres:
  "\<forall>d\<in>set (drivers s). consentInv d \<Longrightarrow>
   \<forall>d\<in>set (drivers (snd (createDriver e s b))). consentInv d"
  by (auto simp: createDriver_def save_def Let_def consentInv_newDriver
      split: option.splits if_splits)

lemma reachable_consentInv: "reachable s \<Longrightarrow> \<forall>d\<in>set (drivers s). consentInv d"
proof (induction rule: reachable.induct)
  case initial
  show ?case
    by (simp add: emptyDb_def)
next
  case (created s e b)
  from create_pres [OF this(2)] show ?case .
next
  case (seeded s e)
  from seed_pres [OF this(2)] show ?case .
next
  case (tracked s e b)
  from tracking_pres [OF this(2)] show ?case .
next
  case (located s e b)
  from location_pres [OF this(2)] show ?case .
qed

text \<open>
  Claim C2. Start from the empty store and apply \<open>createDriver\<close>,
  \<open>seedSampleDrivers\<close>, \<open>applyTrackingCommand\<close> and \<open>applyLocationUpdate\<close> in any
  order, with any request bodies and in any environments, whether the calls succeed or
  fail. Every driver of every store reached this way that has \<open>isTracking\<close> set also
  has \<open>consentGiven\<close> set and a \<open>consentTimestamp\<close>.
\<close>

theorem tracking_implies_consent:
  assumes "reachable s" and "d \<in> set (drivers s)" and "isTracking d"
  shows "consentGiven d \<and> consentTimestamp d \<noteq> None"
proof -
  have "consentInv d"
    using reachable_consentInv [OF assms(1)] assms(2) by blast
  then show ?thesis
    using assms(3) by (simp add: consentInv_def)
qed

lemma trackedDb_run:
  "snd (applyTrackingCommand laterEnv (snd (createDriver testEnv emptyDb createA)) startFirst)
     = trackedDb"
  by (simp add: applyTrackingCommand_def trackingUpdate_def isStart_def findOneAndUpdate_def
      createDriver_def save_def newDriver_def createA_def startFirst_def emptyDb_def
      trackedDb_def trackedDriver_def testEnv_def laterEnv_def hexDigit_def Let_def)

theorem tracking_implies_consent_witness:
  "reachable trackedDb \<and> trackedDriver \<in> set (drivers trackedDb)
   \<and> isTracking trackedDriver
   \<and> consentGiven trackedDriver \<and> consentTimestamp trackedDriver \<noteq> None"
proof -
  have "reachable (snd (applyTrackingCommand laterEnv
                          (snd (createDriver testEnv emptyDb createA)) startFirst))"
    by (intro reachable.tracked reachable.created reachable.initial)
  then have 1: "reachable trackedDb"
    by (simp only: trackedDb_run)
  have 2: "trackedDriver \<in> set (drivers trackedDb)"
    by (simp add: trackedDb_def)
  have 3: "isTracking trackedDriver"
    by (simp add: trackedDriver_def)
  show ?thesis
    using tracking_implies_consent [of trackedDb trackedDriver, OF 1 2 3] 1 2 3
    by (simp only: simp_thms)
qed

end
